theory Spec2Isabelle
  imports
    Main
    "HOL-Library.Multiset"
    "HOL-Library.Char_ord"
    "HOL-Library.List_Lexorder"
    "HOL-Library.Product_Lexorder"
begin

section \<open>The restaurant pipeline of transform.py\<close>

text \<open>
  The program reads three tables, joins them, computes two aggregates, checks the
  joined frame, writes the aggregates to two summary tables inside one transaction and
  prints them. The tabular library and the database driver are primitives of the
  program; they are modelled here by what their documentation promises:
  \<^item> a frame is the list of its rows, a row a record of its cells, a cell that may be
    missing (NULL, None, NaN) an \<open>option\<close>;
  \<^item> amounts are exact integers (hundredths of the currency unit), quantities integers;
    the rounding of binary floating point and the 64-bit range are not modelled;
  \<^item> the three source tables have the columns the program names and no others.
\<close>

subsection \<open>Rows\<close>

type_synonym date = "nat \<times> nat \<times> nat"

record order_row =
  o_order_id :: "string option"
  o_order_date :: "date option"
  o_total_amount :: "int option"

record order_item_row =
  oi_order_id :: "string option"
  oi_item_id :: "string option"
  oi_quantity :: "int option"

record menu_item_row =
  m_item_id :: "string option"
  m_item_name :: "string option"
  m_category :: "string option"

text \<open>The frame after the first merge: the columns of orders, then those of order_items
  without the key.\<close>

record order_line_row =
  ol_order_id :: "string option"
  ol_order_date :: "date option"
  ol_total_amount :: "int option"
  ol_item_id :: "string option"
  ol_quantity :: "int option"

record joined_row =
  j_order_id :: "string option"
  j_order_date :: "date option"
  j_total_amount :: "int option"
  j_item_id :: "string option"
  j_quantity :: "int option"
  j_item_name :: "string option"
  j_category :: "string option"

record daily_revenue_row =
  dr_order_date :: date
  dr_category :: string
  dr_total_amount :: int

record top_item_row =
  ti_item_id :: string
  ti_item_name :: string
  ti_quantity :: int

record data =
  orders :: "order_row list"
  order_items :: "order_item_row list"
  menu_items :: "menu_item_row list"

record results =
  joined_data :: "joined_row list"
  daily_revenue :: "daily_revenue_row list"
  top_items :: "top_item_row list"

subsection \<open>The primitives of the tabular library\<close>

text \<open>
  \<open>left.merge(right, on=key)\<close> is the inner join: for every left row, in order, the right
  rows with an equal key, in order. Two missing keys are equal to each other, as the
  library documents.
\<close>

definition merge_on ::
  "('l \<Rightarrow> 'k) \<Rightarrow> ('r \<Rightarrow> 'k) \<Rightarrow> ('l \<Rightarrow> 'r \<Rightarrow> 'o) \<Rightarrow> 'l list \<Rightarrow> 'r list \<Rightarrow> 'o list" where
  "merge_on lkey rkey row ls rs =
     concat (map (\<lambda>l. map (row l) (filter (\<lambda>r. rkey r = lkey l) rs)) ls)"

text \<open>The key of a row for a grouping on two columns: present when both cells are.\<close>

definition key2 :: "('r \<Rightarrow> 'a option) \<Rightarrow> ('r \<Rightarrow> 'b option) \<Rightarrow> 'r \<Rightarrow> ('a \<times> 'b) option" where
  "key2 f g r =
     (case f r of None \<Rightarrow> None
      | Some a \<Rightarrow> (case g r of None \<Rightarrow> None | Some b \<Rightarrow> Some (a, b)))"

text \<open>A sum skips missing cells.\<close>

definition cell :: "int option \<Rightarrow> int" where
  "cell c = (case c of None \<Rightarrow> 0 | Some v \<Rightarrow> v)"

definition group_rows :: "('r \<Rightarrow> 'k option) \<Rightarrow> 'k \<Rightarrow> 'r list \<Rightarrow> 'r list" where
  "group_rows key k rows = filter (\<lambda>r. key r = Some k) rows"

definition group_keys :: "('r \<Rightarrow> ('k::linorder) option) \<Rightarrow> 'r list \<Rightarrow> 'k list" where
  "group_keys key rows = sort (remdups (List.map_filter key rows))"

text \<open>
  \<open>groupby(keys).agg({col: 'sum'})\<close> with the defaults \<open>sort=True\<close> and \<open>dropna=True\<close>:
  the groups are the keys that occur, in ascending order; a row with a missing key cell
  is in no group.
\<close>

definition groupby_sum ::
  "('r \<Rightarrow> ('k::linorder) option) \<Rightarrow> ('r \<Rightarrow> int option) \<Rightarrow> 'r list \<Rightarrow> ('k \<times> int) list" where
  "groupby_sum key col rows =
     map (\<lambda>k. (k, sum_list (map (\<lambda>r. cell (col r)) (group_rows key k rows))))
       (group_keys key rows)"

definition head :: "nat \<Rightarrow> 'a list \<Rightarrow> 'a list" where
  "head n xs = take n xs"



definition sort_values_stable :: "top_item_row list \<Rightarrow> top_item_row list" where
  "sort_values_stable xs = rev (sort_key ti_quantity (rev xs))"

subsection \<open>The transformations\<close>

text \<open>Lines 84 to 86: orders merged with order_items on order_id, the result merged with
  menu_items on item_id.\<close>

definition order_line :: "order_row \<Rightarrow> order_item_row \<Rightarrow> order_line_row" where
  "order_line o' i =
     \<lparr>ol_order_id = o_order_id o', ol_order_date = o_order_date o',
      ol_total_amount = o_total_amount o', ol_item_id = oi_item_id i,
      ol_quantity = oi_quantity i\<rparr>"

definition joined :: "order_line_row \<Rightarrow> menu_item_row \<Rightarrow> joined_row" where
  "joined l m =
     \<lparr>j_order_id = ol_order_id l, j_order_date = ol_order_date l,
      j_total_amount = ol_total_amount l, j_item_id = ol_item_id l,
      j_quantity = ol_quantity l, j_item_name = m_item_name m,
      j_category = m_category m\<rparr>"

definition joined_df :: "data \<Rightarrow> joined_row list" where
  "joined_df d =
     merge_on ol_item_id m_item_id joined
       (merge_on o_order_id oi_order_id order_line (orders d) (order_items d))
       (menu_items d)"

text \<open>Lines 89 to 91.\<close>

definition daily_revenue_df :: "joined_row list \<Rightarrow> daily_revenue_row list" where
  "daily_revenue_df js =
     map (\<lambda>((d, c), s). \<lparr>dr_order_date = d, dr_category = c, dr_total_amount = s\<rparr>)
       (groupby_sum (key2 j_order_date j_category) j_total_amount js)"

text \<open>Lines 94 to 98.\<close>

definition item_groups :: "joined_row list \<Rightarrow> top_item_row list" where
  "item_groups js =
     map (\<lambda>((i, n), s). \<lparr>ti_item_id = i, ti_item_name = n, ti_quantity = s\<rparr>)
       (groupby_sum (key2 j_item_id j_item_name) j_quantity js)"

definition top_items_df ::
  "(top_item_row list \<Rightarrow> top_item_row list) \<Rightarrow> joined_row list \<Rightarrow> top_item_row list" where
  "top_items_df srt js = head 10 (srt (item_groups js))"

subsection \<open>Exceptions, the log and the world\<close>

text \<open>
  \<open>Psycopg2_Error\<close> is the driver's \<open>Error\<close> class, with the condition that raised it.
  \<open>DatabaseError\<close> is the exception in which the tabular library wraps a failed read, which
  is not a subclass of the driver's \<open>Error\<close>. \<open>KeyError\<close> stands for what the tabular library
  raises on a frame that lacks a column the program names, \<open>OSError\<close> for a failed write to
  standard output, \<open>AttributeError\<close> for a method called on \<open>None\<close>.
\<close>

datatype pg_error =
  OperationalError | InterfaceError | UndefinedTable | UniqueViolation
  | StringDataRightTruncation | NumericValueOutOfRange

datatype exn = Psycopg2_Error pg_error | DatabaseError | KeyError | OSError | AttributeError

datatype level = INFO | WARNING | ERROR

datatype message =
  Connecting | Connected | Connect_failed exn | Connection_closed
  | Loaded | Load_failed exn
  | Null_values "(string \<times> nat) list" | Duplicate_order_ids nat
  | Transformed | Transform_failed exn
  | Saved | Save_failed exn
  | Pipeline_failed exn

datatype printed =
  Heading string | Daily_revenue_table "daily_revenue_row list"
  | Top_items_table "top_item_row list"

text \<open>An attribute of the connection object: \<open>None\<close>, an open handle, or a closed one.\<close>

datatype handle = Unset | Opened | Closed

record tables =
  daily_revenue_tbl :: "daily_revenue_row list option"
  top_selling_items_tbl :: "top_item_row list option"

text \<open>
  The world the program runs in: the two attributes of the \<open>DatabaseConnection\<close> object; the
  server's source tables; its two target tables (\<open>None\<close> when the table does not exist), as
  committed and as the session's open transaction sees them; the faults a test double
  injects, one flag for each call that can fail from outside (connecting, opening the cursor,
  a read, the library calls of the transformation, a statement, the commit, printing), in
  the order of the calls, \<open>True\<close> making that call raise; the log; standard output; and the
  number of calls of \<open>close\<close>. Rolling back and closing an open handle do not fail.
\<close>

record world =
  conn :: handle
  cur :: handle
  source :: data
  committed :: tables
  working :: tables
  faults :: "bool list"
  logs :: "(level \<times> message) list"
  stdout :: "printed list"
  close_calls :: nat

type_synonym 'a io = "world \<Rightarrow> (exn + 'a) \<times> world"

definition returns :: "'a \<Rightarrow> 'a io" where
  "returns x w = (Inr x, w)"

definition raise :: "exn \<Rightarrow> 'a io" where
  "raise e w = (Inl e, w)"

definition and_then :: "'a io \<Rightarrow> ('a \<Rightarrow> 'b io) \<Rightarrow> 'b io" where
  "and_then m f w = (case m w of (Inl e, w') \<Rightarrow> (Inl e, w') | (Inr x, w') \<Rightarrow> f x w')"

fun is_Error :: "exn \<Rightarrow> bool" where
  "is_Error (Psycopg2_Error _) = True"
| "is_Error _ = False"

text \<open>\<open>try: m except Error as e: h e\<close> and \<open>try: m except Exception as e: h e\<close>.\<close>

definition except_Error :: "'a io \<Rightarrow> (exn \<Rightarrow> 'a io) \<Rightarrow> 'a io" where
  "except_Error m h w =
     (case m w of
        (Inl e, w') \<Rightarrow> if is_Error e then h e w' else (Inl e, w')
      | (Inr x, w') \<Rightarrow> (Inr x, w'))"

definition except_Exception :: "'a io \<Rightarrow> (exn \<Rightarrow> 'a io) \<Rightarrow> 'a io" where
  "except_Exception m h w =
     (case m w of (Inl e, w') \<Rightarrow> h e w' | (Inr x, w') \<Rightarrow> (Inr x, w'))"

text \<open>\<open>try: m finally: f\<close>: \<open>f\<close> runs on both exits; an exception of \<open>f\<close> replaces the
  outcome of \<open>m\<close>.\<close>

definition try_finally :: "'a io \<Rightarrow> unit io \<Rightarrow> 'a io" where
  "try_finally m f w =
     (case m w of
        (r, w') \<Rightarrow> (case f w' of (Inl e, w'') \<Rightarrow> (Inl e, w'') | (Inr _, w'') \<Rightarrow> (r, w'')))"

fun for_each :: "'a list \<Rightarrow> ('a \<Rightarrow> unit io) \<Rightarrow> unit io" where
  "for_each [] f = returns ()"
| "for_each (x # xs) f = and_then (f x) (\<lambda>_. for_each xs f)"

definition logger :: "level \<Rightarrow> message \<Rightarrow> unit io" where
  "logger l m w = (Inr (), w\<lparr>logs := logs w @ [(l, m)]\<rparr>)"

text \<open>A call that the test double can make fail with \<open>e\<close>: it takes the next flag.\<close>

definition may_fail :: "exn \<Rightarrow> unit io" where
  "may_fail e w =
     (case faults w of
        [] \<Rightarrow> (Inr (), w)
      | b # bs \<Rightarrow> (if b then Inl e else Inr (), w\<lparr>faults := bs\<rparr>))"

text \<open>A method call on an attribute of the connection object.\<close>

definition on_handle :: "handle \<Rightarrow> unit io" where
  "on_handle h =
     (case h of
        Unset \<Rightarrow> raise AttributeError
      | Closed \<Rightarrow> raise (Psycopg2_Error InterfaceError)
      | Opened \<Rightarrow> returns ())"

subsection \<open>DatabaseConnection\<close>

definition DatabaseConnection :: "world \<Rightarrow> world" where
  "DatabaseConnection w = w\<lparr>conn := Unset, cur := Unset\<rparr>"

definition psycopg2_connect :: "unit io" where
  "psycopg2_connect =
     and_then (may_fail (Psycopg2_Error OperationalError))
       (\<lambda>_ w. (Inr (), w\<lparr>conn := Opened, working := committed w\<rparr>))"

definition conn_cursor :: "unit io" where
  "conn_cursor =
     and_then (\<lambda>w. on_handle (conn w) w) (\<lambda>_.
     and_then (may_fail (Psycopg2_Error OperationalError))
       (\<lambda>_ w. (Inr (), w\<lparr>cur := Opened\<rparr>)))"

definition connect :: "unit io" where
  "connect =
     except_Error
       (and_then (logger INFO Connecting) (\<lambda>_.
        and_then psycopg2_connect (\<lambda>_.
        and_then conn_cursor (\<lambda>_.
        logger INFO Connected))))
       (\<lambda>e. and_then (logger ERROR (Connect_failed e)) (\<lambda>_. raise e))"

text \<open>Closing a handle: an open transaction of the session is discarded with it.\<close>

definition cur_close :: "unit io" where
  "cur_close w =
     (case cur w of
        Unset \<Rightarrow> (Inl AttributeError, w)
      | _ \<Rightarrow> (Inr (), w\<lparr>cur := Closed\<rparr>))"

definition conn_close :: "unit io" where
  "conn_close w =
     (case conn w of
        Unset \<Rightarrow> (Inl AttributeError, w)
      | _ \<Rightarrow> (Inr (), w\<lparr>conn := Closed, working := committed w\<rparr>))"

definition close :: "unit io" where
  "close =
     and_then (\<lambda>w. (Inr (), w\<lparr>close_calls := Suc (close_calls w)\<rparr>)) (\<lambda>_.
     and_then (\<lambda>w. if cur w \<noteq> Unset then cur_close w else (Inr (), w)) (\<lambda>_ w.
       if conn w \<noteq> Unset
       then and_then conn_close (\<lambda>_. logger INFO Connection_closed) w
       else (Inr (), w)))"

subsection \<open>DataTransformer\<close>

text \<open>A read of a source table through the session.\<close>

definition read_sql :: "(data \<Rightarrow> 'r list) \<Rightarrow> 'r list io" where
  "read_sql tbl =
     and_then (\<lambda>w. on_handle (conn w) w) (\<lambda>_.
     and_then (may_fail DatabaseError) (\<lambda>_ w. (Inr (tbl (source w)), w)))"

definition load_data :: "data io" where
  "load_data =
     except_Error
       (and_then (read_sql orders) (\<lambda>orders_df.
        and_then (read_sql order_items) (\<lambda>order_items_df.
        and_then (read_sql menu_items) (\<lambda>menu_items_df.
        and_then (logger INFO Loaded) (\<lambda>_.
        returns \<lparr>orders = orders_df, order_items = order_items_df,
                 menu_items = menu_items_df\<rparr>)))))
       (\<lambda>e. and_then (logger ERROR (Load_failed e)) (\<lambda>_. raise e))"

text \<open>Lines 113 to 123. \<open>duplicated\<close> marks every value that occurred earlier in the column;
  two missing values count as equal.\<close>

definition isnull_sum :: "('r \<Rightarrow> 'a option) \<Rightarrow> 'r list \<Rightarrow> nat" where
  "isnull_sum col rows = length (filter (\<lambda>r. col r = None) rows)"

definition null_counts :: "joined_row list \<Rightarrow> (string \<times> nat) list" where
  "null_counts df =
     [(''order_id'', isnull_sum j_order_id df),
      (''order_date'', isnull_sum j_order_date df),
      (''total_amount'', isnull_sum j_total_amount df),
      (''item_id'', isnull_sum j_item_id df),
      (''quantity'', isnull_sum j_quantity df),
      (''item_name'', isnull_sum j_item_name df),
      (''category'', isnull_sum j_category df)]"

fun duplicated :: "'a list \<Rightarrow> 'a list \<Rightarrow> bool list" where
  "duplicated seen [] = []"
| "duplicated seen (x # xs) = (x \<in> set seen) # duplicated (x # seen) xs"

definition perform_data_quality_checks :: "joined_row list \<Rightarrow> unit io" where
  "perform_data_quality_checks df =
     and_then
       (if \<exists>c \<in> set (null_counts df). snd c \<noteq> 0
        then logger WARNING (Null_values (filter (\<lambda>c. 0 < snd c) (null_counts df)))
        else returns ())
       (\<lambda>_. let duplicate_orders = length (filter id (duplicated [] (map j_order_id df)))
            in if 0 < duplicate_orders
               then logger WARNING (Duplicate_order_ids duplicate_orders)
               else returns ())"

text \<open>Lines 80 to 111. The typed frames of the model always have the columns the program
  names; the exceptions of the library on other frames are the fault of the first call.\<close>

definition perform_transformations ::
  "(top_item_row list \<Rightarrow> top_item_row list) \<Rightarrow> data \<Rightarrow> results io" where
  "perform_transformations srt d =
     except_Exception
       (and_then (may_fail KeyError) (\<lambda>_.
        let df = joined_df d;
            revenue = daily_revenue_df df;
            top = top_items_df srt df
        in and_then (perform_data_quality_checks df) (\<lambda>_.
           and_then (logger INFO Transformed) (\<lambda>_.
           returns \<lparr>joined_data = df, daily_revenue = revenue, top_items = top\<rparr>))))
       (\<lambda>e. and_then (logger ERROR (Transform_failed e)) (\<lambda>_. raise e))"

subsection \<open>The statements of save_results\<close>

datatype statement =
  Create_daily_revenue | Create_top_selling_items
  | Truncate_daily_revenue | Truncate_top_selling_items
  | Insert_daily_revenue date string int
  | Insert_top_selling_items string string int

text \<open>
  A value stored in a \<open>VARCHAR(n)\<close> column: a longer string is an error unless the excess
  is all spaces, which are cut off. \<open>DECIMAL(10,2)\<close> holds amounts below \<open>10^8\<close> units in
  absolute value, \<open>INTEGER\<close> is 32-bit.
\<close>

definition varchar :: "nat \<Rightarrow> string \<Rightarrow> string option" where
  "varchar n s =
     (if length s \<le> n then Some s
      else if \<forall>c \<in> set (drop n s). c = CHR '' '' then Some (take n s)
      else None)"

definition decimal_10_2 :: "int \<Rightarrow> bool" where
  "decimal_10_2 a \<longleftrightarrow> \<bar>a\<bar> < 10 ^ 10"

definition int32 :: "int \<Rightarrow> bool" where
  "int32 q \<longleftrightarrow> - (2 ^ 31) \<le> q \<and> q < 2 ^ 31"

definition create_if_not_exists :: "'r list option \<Rightarrow> 'r list option" where
  "create_if_not_exists t = (case t of None \<Rightarrow> Some [] | Some rows \<Rightarrow> Some rows)"

definition truncate_table :: "'r list option \<Rightarrow> pg_error + 'r list option" where
  "truncate_table t = (case t of None \<Rightarrow> Inl UndefinedTable | Some _ \<Rightarrow> Inr (Some []))"

definition insert_daily_revenue ::
  "date \<Rightarrow> string \<Rightarrow> int \<Rightarrow> daily_revenue_row list option \<Rightarrow>
     pg_error + daily_revenue_row list option" where
  "insert_daily_revenue d c a t =
     (case t of
        None \<Rightarrow> Inl UndefinedTable
      | Some rows \<Rightarrow>
          (case varchar 50 c of
             None \<Rightarrow> Inl StringDataRightTruncation
           | Some c' \<Rightarrow>
               if \<not> decimal_10_2 a then Inl NumericValueOutOfRange
               else if \<exists>r \<in> set rows. dr_order_date r = d \<and> dr_category r = c'
               then Inl UniqueViolation
               else Inr (Some (rows @
                 [\<lparr>dr_order_date = d, dr_category = c', dr_total_amount = a\<rparr>]))))"

definition insert_top_selling_items ::
  "string \<Rightarrow> string \<Rightarrow> int \<Rightarrow> top_item_row list option \<Rightarrow>
     pg_error + top_item_row list option" where
  "insert_top_selling_items i n q t =
     (case t of
        None \<Rightarrow> Inl UndefinedTable
      | Some rows \<Rightarrow>
          (case varchar 10 i of
             None \<Rightarrow> Inl StringDataRightTruncation
           | Some i' \<Rightarrow>
               (case varchar 100 n of
                  None \<Rightarrow> Inl StringDataRightTruncation
                | Some n' \<Rightarrow>
                    if \<not> int32 q then Inl NumericValueOutOfRange
                    else if \<exists>r \<in> set rows. ti_item_id r = i' then Inl UniqueViolation
                    else Inr (Some (rows @
                      [\<lparr>ti_item_id = i', ti_item_name = n', ti_quantity = q\<rparr>])))))"

definition on_daily_revenue ::
  "(daily_revenue_row list option \<Rightarrow> pg_error + daily_revenue_row list option) \<Rightarrow>
     tables \<Rightarrow> pg_error + tables" where
  "on_daily_revenue f t =
     (case f (daily_revenue_tbl t) of
        Inl e \<Rightarrow> Inl e
      | Inr t' \<Rightarrow> Inr (t\<lparr>daily_revenue_tbl := t'\<rparr>))"

definition on_top_selling_items ::
  "(top_item_row list option \<Rightarrow> pg_error + top_item_row list option) \<Rightarrow>
     tables \<Rightarrow> pg_error + tables" where
  "on_top_selling_items f t =
     (case f (top_selling_items_tbl t) of
        Inl e \<Rightarrow> Inl e
      | Inr t' \<Rightarrow> Inr (t\<lparr>top_selling_items_tbl := t'\<rparr>))"

fun run :: "statement \<Rightarrow> tables \<Rightarrow> pg_error + tables" where
  "run Create_daily_revenue t = on_daily_revenue (\<lambda>x. Inr (create_if_not_exists x)) t"
| "run Create_top_selling_items t =
     on_top_selling_items (\<lambda>x. Inr (create_if_not_exists x)) t"
| "run Truncate_daily_revenue t = on_daily_revenue truncate_table t"
| "run Truncate_top_selling_items t = on_top_selling_items truncate_table t"
| "run (Insert_daily_revenue d c a) t = on_daily_revenue (insert_daily_revenue d c a) t"
| "run (Insert_top_selling_items i n q) t =
     on_top_selling_items (insert_top_selling_items i n q) t"

text \<open>\<open>self.db.cur.execute(statement)\<close>: a statement that fails changes nothing.\<close>

definition cur_execute :: "statement \<Rightarrow> unit io" where
  "cur_execute s =
     and_then (\<lambda>w. on_handle (cur w) w) (\<lambda>_.
     and_then (may_fail (Psycopg2_Error OperationalError)) (\<lambda>_ w.
       case run s (working w) of
         Inl e \<Rightarrow> (Inl (Psycopg2_Error e), w)
       | Inr t \<Rightarrow> (Inr (), w\<lparr>working := t\<rparr>)))"

definition conn_commit :: "unit io" where
  "conn_commit =
     and_then (\<lambda>w. on_handle (conn w) w) (\<lambda>_.
     and_then (may_fail (Psycopg2_Error OperationalError)) (\<lambda>_ w.
       (Inr (), w\<lparr>committed := working w\<rparr>)))"

definition conn_rollback :: "unit io" where
  "conn_rollback =
     and_then (\<lambda>w. on_handle (conn w) w) (\<lambda>_ w.
       (Inr (), w\<lparr>working := committed w\<rparr>))"

text \<open>Lines 128 to 165, the body of the \<open>try\<close>.\<close>

definition save_results_try :: "results \<Rightarrow> unit io" where
  "save_results_try r =
     and_then (cur_execute Create_daily_revenue) (\<lambda>_.
     and_then (cur_execute Create_top_selling_items) (\<lambda>_.
     and_then (cur_execute Truncate_daily_revenue) (\<lambda>_.
     and_then (cur_execute Truncate_top_selling_items) (\<lambda>_.
     and_then (for_each (daily_revenue r) (\<lambda>row.
       cur_execute (Insert_daily_revenue
         (dr_order_date row) (dr_category row) (dr_total_amount row)))) (\<lambda>_.
     and_then (for_each (top_items r) (\<lambda>row.
       cur_execute (Insert_top_selling_items
         (ti_item_id row) (ti_item_name row) (ti_quantity row)))) (\<lambda>_.
     and_then conn_commit (\<lambda>_.
     logger INFO Saved)))))))"

definition save_results :: "results \<Rightarrow> unit io" where
  "save_results r =
     except_Error (save_results_try r)
       (\<lambda>e. and_then (logger ERROR (Save_failed e)) (\<lambda>_.
            and_then conn_rollback (\<lambda>_. raise e)))"

definition print_results :: "results \<Rightarrow> unit io" where
  "print_results r =
     and_then (may_fail OSError) (\<lambda>_ w.
       (Inr (), w\<lparr>stdout := stdout w @
          [Heading ''===== DAILY REVENUE BY CATEGORY ====='',
           Daily_revenue_table (daily_revenue r),
           Heading ''===== TOP 10 SELLING ITEMS ====='',
           Top_items_table (top_items r)]\<rparr>))"

subsection \<open>The driver\<close>

definition main :: "(top_item_row list \<Rightarrow> top_item_row list) \<Rightarrow> unit io" where
  "main srt w =
     try_finally
       (except_Exception
          (and_then connect (\<lambda>_.
           and_then load_data (\<lambda>data.
           and_then (perform_transformations srt data) (\<lambda>results.
           and_then (save_results results) (\<lambda>_.
           print_results results)))))
          (\<lambda>e. and_then (logger ERROR (Pipeline_failed e)) (\<lambda>_. raise e)))
       close
       (DatabaseConnection w)"

subsection \<open>Frames and examples\<close>

text \<open>\<open>keeps obs m\<close>: the action \<open>m\<close> leaves the observation \<open>obs\<close> of the world as it was,
  whether it returns or raises.\<close>

definition keeps :: "(world \<Rightarrow> 'b) \<Rightarrow> 'a io \<Rightarrow> bool" where
  "keeps obs m \<longleftrightarrow> (\<forall>w. obs (snd (m w)) = obs w)"

text \<open>The example of the specification: one order of 30.00 with one line of two burgers.\<close>

definition example_data :: data where
  "example_data =
     \<lparr>orders = [\<lparr>o_order_id = Some ''O1'', o_order_date = Some (2024, 1, 1),
                 o_total_amount = Some 3000\<rparr>],
      order_items = [\<lparr>oi_order_id = Some ''O1'', oi_item_id = Some ''I1'',
                      oi_quantity = Some 2\<rparr>],
      menu_items = [\<lparr>m_item_id = Some ''I1'', m_item_name = Some ''Burger'',
                     m_category = Some ''Main''\<rparr>]\<rparr>"







text \<open>One order of 30.00 with two lines, both of the category Main; and the same order
  with a total of nothing.\<close>

definition two_lines_data :: data where
  "two_lines_data =
     \<lparr>orders = orders example_data,
      order_items =
        [\<lparr>oi_order_id = Some ''O1'', oi_item_id = Some ''I1'', oi_quantity = Some 2\<rparr>,
         \<lparr>oi_order_id = Some ''O1'', oi_item_id = Some ''I2'', oi_quantity = Some 1\<rparr>],
      menu_items =
        [\<lparr>m_item_id = Some ''I1'', m_item_name = Some ''Burger'', m_category = Some ''Main''\<rparr>,
         \<lparr>m_item_id = Some ''I2'', m_item_name = Some ''Fries'', m_category = Some ''Main''\<rparr>]\<rparr>"


definition no_tables :: tables where
  "no_tables = \<lparr>daily_revenue_tbl = None, top_selling_items_tbl = None\<rparr>"

text \<open>A world before the first run, with the faults \<open>fs\<close> to come.\<close>

definition example_world :: "bool list \<Rightarrow> world" where
  "example_world fs =
     \<lparr>conn = Unset, cur = Unset, source = example_data, committed = no_tables,
      working = no_tables, faults = fs, logs = [], stdout = [], close_calls = 0\<rparr>"

text \<open>Aggregates to save: those of the example, and a second aggregate whose two rows
  share their \<open>item_id\<close>, the primary key of its table.\<close>

definition example_results :: results where
  "example_results =
     \<lparr>joined_data =
        [\<lparr>j_order_id = Some ''O1'', j_order_date = Some (2024, 1, 1),
          j_total_amount = Some 3000, j_item_id = Some ''I1'', j_quantity = Some 2,
          j_item_name = Some ''Burger'', j_category = Some ''Main''\<rparr>],
      daily_revenue =
        [\<lparr>dr_order_date = (2024, 1, 1), dr_category = ''Main'', dr_total_amount = 3000\<rparr>],
      top_items = [\<lparr>ti_item_id = ''I1'', ti_item_name = ''Burger'', ti_quantity = 2\<rparr>]\<rparr>"

definition clashing_results :: results where
  "clashing_results =
     example_results\<lparr>top_items :=
       [\<lparr>ti_item_id = ''I1'', ti_item_name = ''Burger'', ti_quantity = 2\<rparr>,
        \<lparr>ti_item_id = ''I1'', ti_item_name = ''Cheeseburger'', ti_quantity = 1\<rparr>]\<rparr>"

text \<open>The target tables as an earlier run left them, and as a run on the example leaves
  them.\<close>

definition old_tables :: tables where
  "old_tables =
     \<lparr>daily_revenue_tbl =
        Some [\<lparr>dr_order_date = (2023, 12, 31), dr_category = ''Main'',
               dr_total_amount = 1000\<rparr>],
      top_selling_items_tbl =
        Some [\<lparr>ti_item_id = ''I9'', ti_item_name = ''Soup'', ti_quantity = 5\<rparr>]\<rparr>"

definition new_tables :: tables where
  "new_tables =
     \<lparr>daily_revenue_tbl = Some (daily_revenue example_results),
      top_selling_items_tbl = Some (top_items example_results)\<rparr>"

text \<open>A world after a successful \<open>connect\<close>, with target tables \<open>t\<close> and the faults \<open>fs\<close> to
  come.\<close>

definition connected_world :: "tables \<Rightarrow> bool list \<Rightarrow> world" where
  "connected_world t fs =
     \<lparr>conn = Opened, cur = Opened, source = example_data, committed = t,
      working = t, faults = fs, logs = [], stdout = [], close_calls = 0\<rparr>"

subsection \<open>The statements of one run\<close>

text \<open>The statements \<open>save_results\<close> executes, in order, and their effect on the tables when
  none fails.\<close>

definition statements :: "results \<Rightarrow> statement list" where
  "statements r =
     [Create_daily_revenue, Create_top_selling_items,
      Truncate_daily_revenue, Truncate_top_selling_items] @
     map (\<lambda>row. Insert_daily_revenue (dr_order_date row) (dr_category row)
            (dr_total_amount row)) (daily_revenue r) @
     map (\<lambda>row. Insert_top_selling_items (ti_item_id row) (ti_item_name row)
            (ti_quantity row)) (top_items r)"

fun run_all :: "statement list \<Rightarrow> tables \<Rightarrow> pg_error + tables" where
  "run_all [] t = Inr t"
| "run_all (s # ss) t = (case run s t of Inl e \<Rightarrow> Inl e | Inr t' \<Rightarrow> run_all ss t')"

subsection \<open>Notions used in the statements\<close>









text \<open>The results of a run that does not raise, and the warnings of the checks on a frame.\<close>

definition transformed :: "(top_item_row list \<Rightarrow> top_item_row list) \<Rightarrow> data \<Rightarrow> results" where
  "transformed srt d =
     \<lparr>joined_data = joined_df d, daily_revenue = daily_revenue_df (joined_df d),
      top_items = top_items_df srt (joined_df d)\<rparr>"

definition quality_warnings :: "joined_row list \<Rightarrow> (level \<times> message) list" where
  "quality_warnings df =
     (if \<exists>c \<in> set (null_counts df). snd c \<noteq> 0
      then [(WARNING, Null_values (filter (\<lambda>c. 0 < snd c) (null_counts df)))] else []) @
     (if 0 < length (filter id (duplicated [] (map j_order_id df)))
      then [(WARNING, Duplicate_order_ids
              (length (filter id (duplicated [] (map j_order_id df)))))]
      else [])"

text \<open>For comparison: \<open>perform_transformations\<close> with line 101, the call of the checks, left
  out.\<close>

definition perform_transformations_without_checks ::
  "(top_item_row list \<Rightarrow> top_item_row list) \<Rightarrow> data \<Rightarrow> results io" where
  "perform_transformations_without_checks srt d =
     except_Exception
       (and_then (may_fail KeyError) (\<lambda>_.
        let df = joined_df d;
            revenue = daily_revenue_df df;
            top = top_items_df srt df
        in and_then (logger INFO Transformed) (\<lambda>_.
           returns \<lparr>joined_data = df, daily_revenue = revenue, top_items = top\<rparr>)))
       (\<lambda>e. and_then (logger ERROR (Transform_failed e)) (\<lambda>_. raise e))"

section \<open>What an action leaves unchanged\<close>

lemma keepsI: "(\<And>w. obs (snd (m w)) = obs w) \<Longrightarrow> keeps obs m"
  by (simp add: keeps_def)

lemma keepsD: "keeps obs m \<Longrightarrow> obs (snd (m w)) = obs w"
  by (simp add: keeps_def)

lemma keeps_returns: "keeps obs (returns x)"
  by (simp add: keeps_def returns_def)

lemma keeps_raise: "keeps obs (raise e)"
  by (simp add: keeps_def raise_def)

lemma keeps_and_then:
  assumes "keeps obs m" and "\<And>x. keeps obs (f x)"
  shows "keeps obs (and_then m f)"
proof (rule keepsI)
  fix w
  obtain r w' where mw: "m w = (r, w')" by (cases "m w")
  with assms(1) have w': "obs w' = obs w" by (auto dest: keepsD [where w = w])
  show "obs (snd (and_then m f w)) = obs w"
  proof (cases r)
    case (Inl e)
    with mw w' show ?thesis by (simp add: and_then_def)
  next
    case (Inr x)
    with mw w' assms(2) [of x] show ?thesis
      by (simp add: and_then_def keepsD)
  qed
qed

lemma keeps_except_Exception:
  assumes "keeps obs m" and "\<And>e. keeps obs (h e)"
  shows "keeps obs (except_Exception m h)"
proof (rule keepsI)
  fix w
  obtain r w' where mw: "m w = (r, w')" by (cases "m w")
  with assms(1) have w': "obs w' = obs w" by (auto dest: keepsD [where w = w])
  show "obs (snd (except_Exception m h w)) = obs w"
    using mw w' assms(2) by (cases r) (simp_all add: except_Exception_def keepsD)
qed

lemma keeps_except_Error:
  assumes "keeps obs m" and "\<And>e. keeps obs (h e)"
  shows "keeps obs (except_Error m h)"
proof (rule keepsI)
  fix w
  obtain r w' where mw: "m w = (r, w')" by (cases "m w")
  with assms(1) have w': "obs w' = obs w" by (auto dest: keepsD [where w = w])
  show "obs (snd (except_Error m h w)) = obs w"
    using mw w' assms(2) by (cases r) (simp_all add: except_Error_def keepsD)
qed

lemma keeps_for_each:
  assumes "\<And>x. keeps obs (f x)"
  shows "keeps obs (for_each xs f)"
  by (induction xs) (simp_all add: keeps_returns keeps_and_then assms)

lemma keeps_if: "keeps obs m \<Longrightarrow> keeps obs n \<Longrightarrow> keeps obs (if b then m else n)"
  by simp

lemma keeps_on_handle: "keeps obs (\<lambda>w. on_handle (g w) w)"
  by (simp add: keeps_def on_handle_def raise_def returns_def split: handle.splits)

subsection \<open>No stage of the pipeline calls close\<close>

lemma calls_logger: "keeps close_calls (logger l m)"
  by (simp add: keeps_def logger_def)

lemma calls_may_fail: "keeps close_calls (may_fail e)"
  by (simp add: keeps_def may_fail_def split: list.splits)

lemma calls_connect: "keeps close_calls connect"
  unfolding connect_def psycopg2_connect_def conn_cursor_def
  by (intro keeps_except_Error keeps_and_then calls_logger calls_may_fail keeps_raise
        keeps_on_handle) (simp_all add: keeps_def)

lemma calls_read_sql: "keeps close_calls (read_sql t)"
  unfolding read_sql_def
  by (intro keeps_and_then calls_may_fail keeps_on_handle) (simp_all add: keeps_def)

lemma calls_load_data: "keeps close_calls load_data"
  unfolding load_data_def
  by (intro keeps_except_Error keeps_and_then calls_logger calls_read_sql keeps_raise
        keeps_returns)

lemma calls_checks: "keeps close_calls (perform_data_quality_checks df)"
  unfolding perform_data_quality_checks_def Let_def
  by (intro keeps_and_then keeps_if calls_logger keeps_returns)

lemma calls_perform_transformations: "keeps close_calls (perform_transformations srt d)"
  unfolding perform_transformations_def Let_def
  by (intro keeps_except_Exception keeps_and_then calls_logger calls_may_fail calls_checks
        keeps_raise keeps_returns)

lemma calls_cur_execute: "keeps close_calls (cur_execute s)"
  unfolding cur_execute_def
  by (intro keeps_and_then calls_may_fail keeps_on_handle)
     (simp_all add: keeps_def split: sum.splits)

lemma calls_conn_commit: "keeps close_calls conn_commit"
  unfolding conn_commit_def
  by (intro keeps_and_then calls_may_fail keeps_on_handle) (simp_all add: keeps_def)

lemma calls_conn_rollback: "keeps close_calls conn_rollback"
  unfolding conn_rollback_def
  by (intro keeps_and_then keeps_on_handle) (simp_all add: keeps_def)

lemma calls_save_results: "keeps close_calls (save_results r)"
  unfolding save_results_def save_results_try_def
  by (intro keeps_except_Error keeps_and_then keeps_for_each calls_cur_execute
        calls_conn_commit calls_conn_rollback calls_logger keeps_raise)

lemma calls_print_results: "keeps close_calls (print_results r)"
  unfolding print_results_def
  by (intro keeps_and_then calls_may_fail) (simp_all add: keeps_def)

section \<open>Releasing the connection\<close>

lemma close_returns:
  "\<exists>w'. close w = (Inr (), w') \<and> close_calls w' = Suc (close_calls w) \<and>
        conn w' \<noteq> Opened \<and> cur w' \<noteq> Opened"
  by (cases "cur w"; cases "conn w")
     (simp_all add: close_def and_then_def cur_close_def conn_close_def logger_def)

text \<open>
  C6. Whatever the faults, the tables and the connection object at the start, one run of
  \<open>main\<close> calls \<open>close\<close> exactly once: the count of calls in the world it leaves, after
  returning or raising, is one more than before, and neither handle is left open.
\<close>

theorem main_closes_once:
  "close_calls (snd (main srt w)) = Suc (close_calls w) \<and>
   conn (snd (main srt w)) \<noteq> Opened \<and> cur (snd (main srt w)) \<noteq> Opened"
proof -
  let ?body = "except_Exception
          (and_then connect (\<lambda>_.
           and_then load_data (\<lambda>data.
           and_then (perform_transformations srt data) (\<lambda>results.
           and_then (save_results results) (\<lambda>_.
           print_results results)))))
          (\<lambda>e. and_then (logger ERROR (Pipeline_failed e)) (\<lambda>_. raise e))"
  have body: "keeps close_calls ?body"
    by (intro keeps_except_Exception keeps_and_then calls_connect calls_load_data
          calls_perform_transformations calls_save_results calls_print_results
          calls_logger keeps_raise)
  obtain r w1 where run: "?body (DatabaseConnection w) = (r, w1)"
    by (cases "?body (DatabaseConnection w)")
  from keepsD [OF body, of "DatabaseConnection w"] run
  have "close_calls w1 = close_calls w" by (simp add: DatabaseConnection_def)
  moreover obtain w2 where "close w1 = (Inr (), w2)" "close_calls w2 = Suc (close_calls w1)"
    "conn w2 \<noteq> Opened" "cur w2 \<noteq> Opened"
    using close_returns by blast
  ultimately show ?thesis using run by (simp add: main_def try_finally_def)
qed

text \<open>Three runs on the example in which a stage raises: connecting, the second read, the
  library calls of the transformation.\<close>

lemma main_examples:
  "fst (main sort_values_stable (example_world [True])) =
     Inl (Psycopg2_Error OperationalError)"
  "fst (main sort_values_stable (example_world [False, False, False, True])) =
     Inl DatabaseError"
  "fst (main sort_values_stable (example_world [False, False, False, False, False, True])) =
     Inl KeyError"
  by code_simp+

lemma connect_failed:
  assumes "connect w = (Inl e, w')" and "cur w = Unset" and "conn w = Unset"
  shows "cur w' = Unset \<and> (conn w' = Unset \<or> conn w' = Opened)"
  using assms
  by (auto simp: connect_def except_Error_def and_then_def logger_def psycopg2_connect_def
      conn_cursor_def may_fail_def on_handle_def raise_def returns_def
      split: list.splits if_splits)

text \<open>
  C7. \<open>close\<close> does not raise on a connection object whose \<open>connect\<close> was never called
  (both attributes unset: nothing is released) or failed partway (only the session was
  opened: the session alone is closed); a \<open>connect\<close> that raises on a fresh object leaves
  one of these two states.
\<close>

theorem close_safe_when_unconnected:
  "(conn w = Unset \<and> cur w = Unset \<longrightarrow>
      close w = (Inr (), w\<lparr>close_calls := Suc (close_calls w)\<rparr>)) \<and>
   (conn w = Opened \<and> cur w = Unset \<longrightarrow>
      close w = (Inr (), w\<lparr>conn := Closed, working := committed w,
                           logs := logs w @ [(INFO, Connection_closed)],
                           close_calls := Suc (close_calls w)\<rparr>)) \<and>
   (\<forall>e w'. connect (DatabaseConnection w) = (Inl e, w') \<longrightarrow>
      cur w' = Unset \<and> (conn w' = Unset \<or> conn w' = Opened) \<and> fst (close w') = Inr ())"
proof (intro conjI impI allI)
  assume "conn w = Unset \<and> cur w = Unset"
  then show "close w = (Inr (), w\<lparr>close_calls := Suc (close_calls w)\<rparr>)"
    by (simp add: close_def and_then_def)
next
  assume "conn w = Opened \<and> cur w = Unset"
  then show "close w = (Inr (), w\<lparr>conn := Closed, working := committed w,
      logs := logs w @ [(INFO, Connection_closed)], close_calls := Suc (close_calls w)\<rparr>)"
    by (simp add: close_def and_then_def conn_close_def logger_def)
next
  fix e w' assume c: "connect (DatabaseConnection w) = (Inl e, w')"
  then have h: "cur w' = Unset \<and> (conn w' = Unset \<or> conn w' = Opened)"
    by (rule connect_failed) (simp_all add: DatabaseConnection_def)
  then show "cur w' = Unset" "conn w' = Unset \<or> conn w' = Opened" by simp_all
  from h show "fst (close w') = Inr ()"
    by (auto simp: close_def and_then_def conn_close_def logger_def)
qed

theorem close_safe_when_unconnected_witness:
  "close (example_world []) = (Inr (), (example_world [])\<lparr>close_calls := 1\<rparr>) \<and>
   close ((example_world [])\<lparr>conn := Opened\<rparr>) =
     (Inr (), (example_world [])\<lparr>conn := Closed, logs := [(INFO, Connection_closed)],
                                  close_calls := 1\<rparr>) \<and>
   connect (DatabaseConnection (example_world [False, True])) =
     (Inl (Psycopg2_Error OperationalError),
      (example_world [])\<lparr>conn := Opened,
         logs := [(INFO, Connecting),
                  (ERROR, Connect_failed (Psycopg2_Error OperationalError))]\<rparr>) \<and>
   fst (close ((example_world [])\<lparr>conn := Opened,
         logs := [(INFO, Connecting),
                  (ERROR, Connect_failed (Psycopg2_Error OperationalError))]\<rparr>)) = Inr ()"
proof -
  have c: "connect (DatabaseConnection (example_world [False, True])) =
     (Inl (Psycopg2_Error OperationalError),
      (example_world [])\<lparr>conn := Opened,
         logs := [(INFO, Connecting),
                  (ERROR, Connect_failed (Psycopg2_Error OperationalError))]\<rparr>)"
    by (simp add: example_world_def DatabaseConnection_def connect_def except_Error_def
        and_then_def logger_def psycopg2_connect_def conn_cursor_def may_fail_def
        on_handle_def raise_def returns_def)
  show ?thesis
    using close_safe_when_unconnected [of "example_world []"]
      close_safe_when_unconnected [of "(example_world [])\<lparr>conn := Opened\<rparr>"]
      close_safe_when_unconnected [of "example_world [False, True]"] c
    by (simp add: example_world_def)
qed

section \<open>Saving the results\<close>

subsection \<open>The body of the try as a list of statements\<close>

lemma and_then_assoc:
  "and_then (and_then m f) g = and_then m (\<lambda>x. and_then (f x) g)"
  by (rule ext) (simp add: and_then_def split: prod.splits sum.splits)

lemma returns_and_then: "and_then (returns x) f = f x"
  by (rule ext) (simp add: and_then_def returns_def)

lemma for_each_append:
  "for_each (xs @ ys) f = and_then (for_each xs f) (\<lambda>_. for_each ys f)"
  by (induction xs) (simp_all add: returns_and_then and_then_assoc)

lemma for_each_map: "for_each (map g xs) f = for_each xs (\<lambda>x. f (g x))"
  by (induction xs) simp_all

lemma save_results_try_statements:
  "save_results_try r =
     and_then (for_each (statements r) cur_execute) (\<lambda>_.
     and_then conn_commit (\<lambda>_. logger INFO Saved))"
  by (simp add: save_results_try_def statements_def for_each_append for_each_map
      and_then_assoc returns_and_then)

lemma cur_execute_Inr:
  assumes "cur_execute s w = (Inr u, w')"
  shows "run s (working w) = Inr (working w') \<and> committed w' = committed w \<and>
         conn w' = conn w \<and> cur w' = cur w \<and> logs w' = logs w"
  using assms
  by (auto simp: cur_execute_def and_then_def on_handle_def raise_def returns_def
      may_fail_def split: handle.splits list.splits if_splits sum.splits)

lemma cur_execute_Inl:
  assumes "cur_execute s w = (Inl e, w')"
  shows "working w' = working w \<and> committed w' = committed w \<and>
         conn w' = conn w \<and> cur w' = cur w \<and> logs w' = logs w \<and>
         (cur w = Opened \<longrightarrow> is_Error e)"
  using assms
  by (auto simp: cur_execute_def and_then_def on_handle_def raise_def returns_def
      may_fail_def split: handle.splits list.splits if_splits sum.splits)

lemma execute_all_Inr:
  "for_each ss cur_execute w = (Inr u, w') \<Longrightarrow>
     run_all ss (working w) = Inr (working w') \<and> committed w' = committed w \<and>
     conn w' = conn w \<and> cur w' = cur w \<and> logs w' = logs w"
proof (induction ss arbitrary: w)
  case Nil
  then show ?case by (simp add: returns_def)
next
  case (Cons s ss)
  from Cons.prems obtain w1 where s: "cur_execute s w = (Inr (), w1)"
    and rest: "for_each ss cur_execute w1 = (Inr u, w')"
    by (auto simp: and_then_def split: prod.splits sum.splits)
  from cur_execute_Inr [OF s] Cons.IH [OF rest] show ?case by simp
qed

lemma execute_all_Inl:
  "for_each ss cur_execute w = (Inl e, w') \<Longrightarrow>
     committed w' = committed w \<and> conn w' = conn w \<and> cur w' = cur w \<and>
     logs w' = logs w \<and> (cur w = Opened \<longrightarrow> is_Error e)"
proof (induction ss arbitrary: w)
  case Nil
  then show ?case by (simp add: returns_def)
next
  case (Cons s ss)
  show ?case
  proof (cases "cur_execute s w")
    case (Pair r w1)
    show ?thesis
    proof (cases r)
      case (Inl e1)
      with Pair Cons.prems have "e1 = e" "w1 = w'" by (simp_all add: and_then_def)
      with Pair Inl cur_execute_Inl [of s w e w'] show ?thesis by simp
    next
      case (Inr u1)
      with Pair Cons.prems have rest: "for_each ss cur_execute w1 = (Inl e, w')"
        by (simp add: and_then_def)
      from Pair Inr have "cur_execute s w = (Inr u1, w1)" by simp
      from cur_execute_Inr [OF this] Cons.IH [OF rest] show ?thesis by simp
    qed
  qed
qed

lemma conn_commit_Inr:
  "conn_commit w = (Inr u, w') \<Longrightarrow>
     committed w' = working w \<and> working w' = working w \<and> logs w' = logs w"
  by (auto simp: conn_commit_def and_then_def on_handle_def raise_def returns_def
      may_fail_def split: handle.splits list.splits if_splits)

lemma conn_commit_Inl:
  "conn_commit w = (Inl e, w') \<Longrightarrow>
     committed w' = committed w \<and> conn w' = conn w \<and> logs w' = logs w \<and>
     (conn w = Opened \<longrightarrow> is_Error e)"
  by (auto simp: conn_commit_def and_then_def on_handle_def raise_def returns_def
      may_fail_def split: handle.splits list.splits if_splits)

lemma save_results_try_Inl:
  assumes "save_results_try r w = (Inl e, w1)"
  shows "committed w1 = committed w \<and> conn w1 = conn w \<and> logs w1 = logs w \<and>
         (conn w = Opened \<and> cur w = Opened \<longrightarrow> is_Error e)"
proof (cases "for_each (statements r) cur_execute w")
  case (Pair r1 wa)
  show ?thesis
  proof (cases r1)
    case (Inl e1)
    with Pair assms have "e1 = e" "wa = w1"
      by (simp_all add: save_results_try_statements and_then_def)
    with Pair Inl execute_all_Inl [of "statements r" w e w1] show ?thesis by simp
  next
    case (Inr u)
    with Pair have ok: "for_each (statements r) cur_execute w = (Inr u, wa)" by simp
    note a = execute_all_Inr [OF ok]
    from assms Pair Inr have "and_then conn_commit (\<lambda>_. logger INFO Saved) wa = (Inl e, w1)"
      by (simp add: save_results_try_statements and_then_def)
    then have "conn_commit wa = (Inl e, w1)"
      by (auto simp: and_then_def logger_def split: prod.splits sum.splits)
    from conn_commit_Inl [OF this] a show ?thesis by simp
  qed
qed

lemma save_results_try_Inr:
  assumes "save_results_try r w = (Inr u, w1)"
  shows "run_all (statements r) (working w) = Inr (working w1) \<and> committed w1 = working w1"
proof -
  from assms obtain wa wb ua ub where a: "for_each (statements r) cur_execute w = (Inr ua, wa)"
    and b: "conn_commit wa = (Inr ub, wb)" and c: "logger INFO Saved wb = (Inr u, w1)"
    by (auto simp: save_results_try_statements and_then_def split: prod.splits sum.splits)
  from c have "working w1 = working wb" "committed w1 = committed wb"
    by (auto simp: logger_def)
  with execute_all_Inr [OF a] conn_commit_Inr [OF b] show ?thesis by simp
qed

lemma run_all_statements:
  "run_all (statements r) t = run_all (drop 4 (statements r))
     \<lparr>daily_revenue_tbl = Some [], top_selling_items_tbl = Some []\<rparr>"
proof (cases t)
  case (fields d s)
  then show ?thesis
    by (cases d; cases s)
       (simp_all add: statements_def on_daily_revenue_def on_top_selling_items_def
          create_if_not_exists_def truncate_table_def)
qed

lemmas save_eval =
  save_results_def save_results_try_def except_Error_def and_then_def logger_def
  cur_execute_def conn_commit_def conn_rollback_def on_handle_def may_fail_def returns_def
  raise_def on_daily_revenue_def on_top_selling_items_def create_if_not_exists_def
  truncate_table_def insert_daily_revenue_def insert_top_selling_items_def varchar_def
  decimal_10_2_def int32_def example_results_def clashing_results_def old_tables_def
  new_tables_def connected_world_def

subsection \<open>Rollback\<close>

text \<open>
  C3. On an open connection, when a step of the body of \<open>save_results\<close> raises \<open>e\<close> (creating
  a table, truncating, an insert, the commit), \<open>save_results\<close> logs the error, rolls back
  and raises the same \<open>e\<close>: the committed contents of both target tables are those from
  before the call, and the session sees exactly them again.
\<close>

theorem save_results_rolls_back:
  assumes "conn w = Opened" and "cur w = Opened"
    and "save_results_try r w = (Inl e, w1)"
  shows "\<exists>w'. save_results r w = (Inl e, w') \<and> committed w' = committed w \<and>
           working w' = committed w \<and> logs w' = logs w @ [(ERROR, Save_failed e)]"
proof -
  from save_results_try_Inl [OF assms(3)] assms(1,2)
  have 1: "committed w1 = committed w" "conn w1 = Opened" "logs w1 = logs w" "is_Error e"
    by simp_all
  then show ?thesis using assms(3)
    by (simp add: save_results_def except_Error_def and_then_def logger_def
        conn_rollback_def on_handle_def returns_def raise_def)
qed

text \<open>Two failures: the second insert into \<open>top_selling_items\<close> violates the primary key;
  the double makes the commit fail.\<close>

theorem save_results_rolls_back_witness:
  "fst (save_results clashing_results (connected_world old_tables [])) =
     Inl (Psycopg2_Error UniqueViolation) \<and>
   committed (snd (save_results clashing_results (connected_world old_tables []))) =
     old_tables \<and>
   working (snd (save_results clashing_results (connected_world old_tables []))) =
     old_tables \<and>
   fst (save_results example_results
     (connected_world old_tables [False, False, False, False, False, False, True])) =
     Inl (Psycopg2_Error OperationalError) \<and>
   committed (snd (save_results example_results
     (connected_world old_tables [False, False, False, False, False, False, True]))) =
     old_tables \<and>
   working (snd (save_results example_results
     (connected_world old_tables [False, False, False, False, False, False, True]))) =
     old_tables"
proof -
  let ?w = "connected_world old_tables []"
  let ?v = "connected_world old_tables [False, False, False, False, False, False, True]"
  have "fst (save_results_try clashing_results ?w) = Inl (Psycopg2_Error UniqueViolation)"
    by (simp add: save_eval)
  then have 1: "save_results_try clashing_results ?w =
      (Inl (Psycopg2_Error UniqueViolation), snd (save_results_try clashing_results ?w))"
    by (metis prod.collapse)
  have "fst (save_results_try example_results ?v) = Inl (Psycopg2_Error OperationalError)"
    by (simp add: save_eval)
  then have 2: "save_results_try example_results ?v =
      (Inl (Psycopg2_Error OperationalError), snd (save_results_try example_results ?v))"
    by (metis prod.collapse)
  have o: "conn ?w = Opened" "cur ?w = Opened" "committed ?w = old_tables"
    "conn ?v = Opened" "cur ?v = Opened" "committed ?v = old_tables"
    by (simp_all add: connected_world_def)
  from save_results_rolls_back [OF o(1,2) 1] save_results_rolls_back [OF o(4,5) 2] o(3,6)
  show ?thesis by auto
qed

subsection \<open>Idempotence\<close>

text \<open>
  C4. When \<open>save_results\<close> succeeds twice in a row on the same results, the second run
  leaves both target tables, committed and as the session sees them, as the first run left
  them.
\<close>

theorem save_results_idempotent:
  assumes "save_results r w = (Inr (), w1)" and "save_results r w1 = (Inr (), w2)"
  shows "committed w2 = committed w1 \<and> working w2 = working w1"
proof -
  have ok: "save_results_try r v = (Inr (), v')" if "save_results r v = (Inr (), v')" for v v'
    using that
    by (auto simp: save_results_def except_Error_def and_then_def logger_def raise_def
        split: prod.splits sum.splits if_splits)
  from save_results_try_Inr [OF ok [OF assms(1)]] save_results_try_Inr [OF ok [OF assms(2)]]
    run_all_statements [of r "working w"] run_all_statements [of r "working w1"]
  show ?thesis by simp
qed


theorem save_results_idempotent_witness:
  "save_results example_results (connected_world old_tables []) =
     (Inr (), (connected_world new_tables [])\<lparr>logs := [(INFO, Saved)]\<rparr>) \<and>
   save_results example_results ((connected_world new_tables [])\<lparr>logs := [(INFO, Saved)]\<rparr>) =
     (Inr (), (connected_world new_tables [])\<lparr>logs := [(INFO, Saved), (INFO, Saved)]\<rparr>) \<and>
   committed ((connected_world new_tables [])\<lparr>logs := [(INFO, Saved), (INFO, Saved)]\<rparr>) =
     committed ((connected_world new_tables [])\<lparr>logs := [(INFO, Saved)]\<rparr>) \<and>
   working ((connected_world new_tables [])\<lparr>logs := [(INFO, Saved), (INFO, Saved)]\<rparr>) =
     working ((connected_world new_tables [])\<lparr>logs := [(INFO, Saved)]\<rparr>)"
proof -
  have 1: "save_results example_results (connected_world old_tables []) =
     (Inr (), (connected_world new_tables [])\<lparr>logs := [(INFO, Saved)]\<rparr>)"
    by (simp add: save_eval)
  have 2: "save_results example_results
       ((connected_world new_tables [])\<lparr>logs := [(INFO, Saved)]\<rparr>) =
     (Inr (), (connected_world new_tables [])\<lparr>logs := [(INFO, Saved), (INFO, Saved)]\<rparr>)"
    by (simp add: save_eval)
  from save_results_idempotent [OF 1 2] 1 2 show ?thesis by simp
qed

section \<open>The transformations\<close>



subsection \<open>Grouping\<close>

lemma key2_Some [simp]: "key2 f g r = Some (a, b) \<longleftrightarrow> f r = Some a \<and> g r = Some b"
  by (simp add: key2_def split: option.splits)




lemma map_fst_groupby_sum: "map fst (groupby_sum key col rows) = group_keys key rows"
  by (simp add: groupby_sum_def comp_def)

lemma groupby_sum_mem:
  "(k, s) \<in> set (groupby_sum key col rows) \<longleftrightarrow>
     k \<in> set (group_keys key rows) \<and>
     s = sum_list (map (\<lambda>r. cell (col r)) (filter (\<lambda>r. key r = Some k) rows))"
  by (auto simp: groupby_sum_def group_rows_def)





subsection \<open>Daily revenue\<close>





subsection \<open>The join\<close>




lemma joined_fields [simp]:
  "j_order_id (joined (order_line o' i) m) = o_order_id o'"
  "j_order_date (joined (order_line o' i) m) = o_order_date o'"
  "j_total_amount (joined (order_line o' i) m) = o_total_amount o'"
  "j_item_id (joined (order_line o' i) m) = oi_item_id i"
  "j_quantity (joined (order_line o' i) m) = oi_quantity i"
  "j_item_name (joined (order_line o' i) m) = m_item_name m"
  "j_category (joined (order_line o' i) m) = m_category m"
  by (simp_all add: joined_def order_line_def)






subsection \<open>Top selling items\<close>
























subsection \<open>The quality checks\<close>

lemma duplicated_count:
  "length (filter id (duplicated seen xs)) + card (set xs - set seen) = length xs"
proof (induction xs arbitrary: seen)
  case Nil
  then show ?case by simp
next
  case (Cons x xs)
  note IH = Cons.IH [of "x # seen"]
  show ?case
  proof (cases "x \<in> set seen")
    case True
    then have "set (x # xs) - set seen = set xs - set (x # seen)" by auto
    then have "card (set (x # xs) - set seen) = card (set xs - set (x # seen))"
      by (rule arg_cong)
    moreover from True have "length (filter id (duplicated seen (x # xs))) =
        Suc (length (filter id (duplicated (x # seen) xs)))"
      by simp
    ultimately show ?thesis using IH by (simp only: length_Cons add_Suc)
  next
    case False
    then have "set (x # xs) - set seen = insert x (set xs - set (x # seen))" by auto
    then have "card (set (x # xs) - set seen) = card (insert x (set xs - set (x # seen)))"
      by (rule arg_cong)
    also have "\<dots> = Suc (card (set xs - set (x # seen)))"
      by (rule card_insert_disjoint) auto
    finally have c: "card (set (x # xs) - set seen) = Suc (card (set xs - set (x # seen)))" .
    from False have "length (filter id (duplicated seen (x # xs))) =
        length (filter id (duplicated (x # seen) xs))"
      by simp
    with c show ?thesis using IH by (simp only: length_Cons add_Suc_right)
  qed
qed

lemma duplicated_sum:
  "length (filter id (duplicated [] xs)) = length xs - card (set xs)"
  using duplicated_count [of "[]" xs] by simp

lemma duplicated_positive:
  assumes "\<not> distinct xs"
  shows "0 < length xs - card (set xs)"
proof -
  have "card (set xs) \<le> length xs" by (rule card_length)
  moreover have "card (set xs) \<noteq> length xs" using assms card_distinct by blast
  ultimately show ?thesis by arith
qed

lemma checks_eq:
  "perform_data_quality_checks df w = (Inr (), w\<lparr>logs := logs w @ quality_warnings df\<rparr>)"
  by (simp add: perform_data_quality_checks_def quality_warnings_def and_then_def Let_def
      logger_def returns_def)

lemma perform_transformations_eq:
  "perform_transformations srt d w =
     (if faults w \<noteq> [] \<and> hd (faults w)
      then (Inl KeyError,
            w\<lparr>faults := tl (faults w),
              logs := logs w @ [(ERROR, Transform_failed KeyError)]\<rparr>)
      else (Inr (transformed srt d),
            w\<lparr>faults := tl (faults w),
              logs := logs w @ quality_warnings (joined_df d) @ [(INFO, Transformed)]\<rparr>))"
  by (cases "faults w")
     (simp_all add: perform_transformations_def except_Exception_def and_then_def Let_def
        checks_eq logger_def returns_def raise_def may_fail_def transformed_def)

lemma without_checks_eq:
  "perform_transformations_without_checks srt d w =
     (if faults w \<noteq> [] \<and> hd (faults w)
      then (Inl KeyError,
            w\<lparr>faults := tl (faults w),
              logs := logs w @ [(ERROR, Transform_failed KeyError)]\<rparr>)
      else (Inr (transformed srt d),
            w\<lparr>faults := tl (faults w), logs := logs w @ [(INFO, Transformed)]\<rparr>))"
  by (cases "faults w")
     (simp_all add: perform_transformations_without_checks_def except_Exception_def
        and_then_def Let_def logger_def returns_def raise_def may_fail_def transformed_def)

lemma duplicate_warning:
  assumes "\<not> distinct (map j_order_id df)"
  shows "(WARNING, Duplicate_order_ids (length df - card (set (map j_order_id df))))
      \<in> set (quality_warnings df)"
  using duplicated_positive [OF assms] duplicated_sum [of "map j_order_id df"]
  by (simp add: quality_warnings_def)

lemma transformed_run:
  "perform_transformations srt d (example_world []) =
     (Inr (transformed srt d), snd (perform_transformations srt d (example_world [])))"
  by (simp add: perform_transformations_eq example_world_def)

lemma two_lines_joined:
  "joined_df two_lines_data =
     [\<lparr>j_order_id = Some ''O1'', j_order_date = Some (2024, 1, 1),
       j_total_amount = Some 3000, j_item_id = Some ''I1'', j_quantity = Some 2,
       j_item_name = Some ''Burger'', j_category = Some ''Main''\<rparr>,
      \<lparr>j_order_id = Some ''O1'', j_order_date = Some (2024, 1, 1),
       j_total_amount = Some 3000, j_item_id = Some ''I2'', j_quantity = Some 1,
       j_item_name = Some ''Fries'', j_category = Some ''Main''\<rparr>]"
  by (simp add: joined_df_def merge_on_def joined_def order_line_def two_lines_data_def
      example_data_def)

text \<open>
  C8. The checks return, having appended their warnings to the log and changed nothing
  else; the results of \<open>perform_transformations\<close> are those of the same function without the
  call of the checks, and the two worlds differ in the log alone; and when an order_id
  occurs in two joined rows, the warning with the number of repeated rows is in the log.
\<close>

theorem quality_checks_only_log:
  "(\<exists>ms. perform_data_quality_checks df w = (Inr (), w\<lparr>logs := logs w @ ms\<rparr>) \<and>
      (\<not> distinct (map j_order_id df) \<longrightarrow>
         (WARNING, Duplicate_order_ids (length df - card (set (map j_order_id df))))
           \<in> set ms)) \<and>
   fst (perform_transformations srt d w) =
     fst (perform_transformations_without_checks srt d w) \<and>
   (snd (perform_transformations srt d w))\<lparr>logs := l\<rparr> =
     (snd (perform_transformations_without_checks srt d w))\<lparr>logs := l\<rparr> \<and>
   (\<forall>res w'. perform_transformations srt d w = (Inr res, w') \<and>
      \<not> distinct (map j_order_id (joined_data res)) \<longrightarrow>
      (WARNING, Duplicate_order_ids
         (length (joined_data res) - card (set (map j_order_id (joined_data res)))))
        \<in> set (logs w'))"
proof (intro conjI allI impI)
  show "\<exists>ms. perform_data_quality_checks df w = (Inr (), w\<lparr>logs := logs w @ ms\<rparr>) \<and>
      (\<not> distinct (map j_order_id df) \<longrightarrow>
         (WARNING, Duplicate_order_ids (length df - card (set (map j_order_id df))))
           \<in> set ms)"
    using checks_eq [of df w] duplicate_warning [of df] by blast
  show "fst (perform_transformations srt d w) =
      fst (perform_transformations_without_checks srt d w)"
    by (simp add: perform_transformations_eq without_checks_eq)
  show "(snd (perform_transformations srt d w))\<lparr>logs := l\<rparr> =
      (snd (perform_transformations_without_checks srt d w))\<lparr>logs := l\<rparr>"
    by (simp add: perform_transformations_eq without_checks_eq)
next
  fix res w'
  assume a: "perform_transformations srt d w = (Inr res, w') \<and>
      \<not> distinct (map j_order_id (joined_data res))"
  then have r: "res = transformed srt d"
    and l: "logs w' = logs w @ quality_warnings (joined_df d) @ [(INFO, Transformed)]"
    by (auto simp: perform_transformations_eq split: if_splits)
  from a r have "\<not> distinct (map j_order_id (joined_df d))" by (simp add: transformed_def)
  from duplicate_warning [OF this] show "(WARNING, Duplicate_order_ids
         (length (joined_data res) - card (set (map j_order_id (joined_data res)))))
        \<in> set (logs w')"
    by (simp add: r l transformed_def)
qed

theorem quality_checks_only_log_witness:
  "fst (perform_transformations sort_values_stable two_lines_data (example_world [])) =
     fst (perform_transformations_without_checks sort_values_stable two_lines_data
       (example_world [])) \<and>
   (WARNING, Duplicate_order_ids 1) \<in>
     set (logs (snd (perform_transformations sort_values_stable two_lines_data
       (example_world []))))"
proof -
  let ?w = "example_world []"
  note t = quality_checks_only_log [of "joined_df two_lines_data" ?w sort_values_stable
      two_lines_data "[]"]
  have d: "\<not> distinct (map j_order_id (joined_data (transformed sort_values_stable two_lines_data)))"
    by (simp add: transformed_def two_lines_joined)
  have n: "length (joined_data (transformed sort_values_stable two_lines_data)) -
      card (set (map j_order_id (joined_data (transformed sort_values_stable two_lines_data)))) = 1"
    by (simp add: transformed_def two_lines_joined)
  from t transformed_run [of sort_values_stable two_lines_data] d
  have "(WARNING, Duplicate_order_ids
      (length (joined_data (transformed sort_values_stable two_lines_data)) -
       card (set (map j_order_id (joined_data (transformed sort_values_stable two_lines_data))))))
      \<in> set (logs (snd (perform_transformations sort_values_stable two_lines_data ?w)))"
    by blast
  with t show ?thesis by (simp only: n)
qed

subsection \<open>Determinism\<close>



subsection \<open>An order is counted once for each of its lines\<close>












end
